theory Spec2Isabelle
  imports Main
begin

section \<open>VariableChoiceSystem: the data model\<close>

text \<open>
  The plugin keeps one session object in \<^verbatim>\<open>$gameSystem._variableChoiceData\<close>, built by
  \<^verbatim>\<open>setupVariableChoice\<close> (lines 242-248). The optional third argument of that function
  is an object \<^verbatim>\<open>{eventId, distance, index}\<close>.
\<close>

record distance_condition =
  eventId :: int
  distance :: int
  index :: int

record choice_data =
  choices :: "string list"
  variableId :: int
  isActive :: bool
  forcedIndex :: "int option"
  distanceCondition :: "distance_condition option"

text \<open>
  The fields of \<^verbatim>\<open>Window_VariableChoice\<close> that the plugin's control flow reads or writes:
  \<^verbatim>\<open>active\<close>, \<^verbatim>\<open>openness\<close>, the flags \<^verbatim>\<open>_opening\<close> and \<^verbatim>\<open>_closing\<close> behind
  \<^verbatim>\<open>open()\<close> and \<^verbatim>\<open>close()\<close>, the cursor \<^verbatim>\<open>_index\<close> behind \<^verbatim>\<open>select()\<close> and
  \<^verbatim>\<open>index()\<close>, and the command list \<^verbatim>\<open>_list\<close> filled by \<^verbatim>\<open>makeCommandList\<close>.
  Position and size (lines 76-106) are layout only and are not part of the record.
\<close>

record choice_window =
  active :: bool
  openness :: int
  opening_flag :: bool
  closing_flag :: bool
  cursor_index :: int
  command_list :: "string list"

text \<open>
  The globals the plugin touches: the session slot (absent until the first call of
  \<^verbatim>\<open>setupVariableChoice\<close>), the variable store \<^verbatim>\<open>$gameVariables\<close> with the sequence of
  \<^verbatim>\<open>setValue\<close> calls made so far, the timers registered with \<^verbatim>\<open>setTimeout\<close> (delay in
  milliseconds and the variable the callback resets), the map's events by id with their
  grid position, and the player's position.
\<close>

record game =
  variableChoiceData :: "choice_data option"
  gameVariables :: "int \<Rightarrow> int"
  setValueLog :: "(int \<times> int) list"
  timeouts :: "(nat \<times> int) list"
  mapEvents :: "int \<Rightarrow> (int \<times> int) option"
  playerX :: int
  playerY :: int

section \<open>Host engine operations the plugin calls\<close>

text \<open>
  These belong to the RPG Maker MZ core, not to the plugin. The variable store is the
  \<^verbatim>\<open>set(id, value)\<close> interface over integer values (the plugin calls it with positive
  ids only; the engine's check of the id against the project's variable table is not
  modelled); \<^verbatim>\<open>setTimeout\<close> registers a callback; the window
  operations are those of \<^verbatim>\<open>Window_Base\<close> and \<^verbatim>\<open>Window_Selectable\<close>: \<^verbatim>\<open>open()\<close> raises
  the opening flag unless the window is fully open and drops the closing flag,
  \<^verbatim>\<open>close()\<close> raises the closing flag unless the window is fully closed and drops the
  opening flag, \<^verbatim>\<open>activate()\<close>/\<^verbatim>\<open>deactivate()\<close> set \<^verbatim>\<open>active\<close>, \<^verbatim>\<open>select(i)\<close> sets the
  cursor.
\<close>

definition setValue :: "int \<Rightarrow> int \<Rightarrow> game \<Rightarrow> game" where
  "setValue vid v g =
     g\<lparr>gameVariables := (gameVariables g)(vid := v),
       setValueLog := setValueLog g @ [(vid, v)]\<rparr>"

definition setTimeout :: "nat \<Rightarrow> int \<Rightarrow> game \<Rightarrow> game" where
  "setTimeout ms vid g = g\<lparr>timeouts := timeouts g @ [(ms, vid)]\<rparr>"

text \<open>The body of both timer callbacks of the plugin (lines 129-131 and 213-215).\<close>

definition timeoutCallback :: "nat \<times> int \<Rightarrow> game \<Rightarrow> game" where
  "timeoutCallback t g = setValue (snd t) 0 g"

definition activate :: "choice_window \<Rightarrow> choice_window" where
  "activate w = w\<lparr>active := True\<rparr>"

definition deactivate :: "choice_window \<Rightarrow> choice_window" where
  "deactivate w = w\<lparr>active := False\<rparr>"

definition open_w :: "choice_window \<Rightarrow> choice_window" where
  "open_w w =
     w\<lparr>opening_flag := (if openness w \<ge> 255 then opening_flag w else True),
       closing_flag := False\<rparr>"

definition close_w :: "choice_window \<Rightarrow> choice_window" where
  "close_w w =
     w\<lparr>closing_flag := (if openness w \<le> 0 then closing_flag w else True),
       opening_flag := False\<rparr>"

definition select :: "choice_window \<Rightarrow> int \<Rightarrow> choice_window" where
  "select w i = w\<lparr>cursor_index := i\<rparr>"

text \<open>
  \<^verbatim>\<open>Window_Command.isCurrentItemEnabled\<close>: the cursor addresses an entry of the command
  list and that entry is enabled. \<^verbatim>\<open>makeCommandList\<close> adds every entry with
  \<^verbatim>\<open>addCommand(choice, 'select')\<close>, which enables it, so only the range matters.
\<close>

definition isCurrentItemEnabled :: "choice_window \<Rightarrow> bool" where
  "isCurrentItemEnabled w \<longleftrightarrow>
     0 \<le> cursor_index w \<and> cursor_index w < int (length (command_list w))"

section \<open>The plugin\<close>

text \<open>
  The test \<^verbatim>\<open>_variableChoiceData?.isActive\<close> (lines 161, 182 and 233): false without a
  session object.
\<close>

definition sessionActive :: "game \<Rightarrow> bool" where
  "sessionActive g \<longleftrightarrow> (case variableChoiceData g of None \<Rightarrow> False | Some d \<Rightarrow> isActive d)"

subsection \<open>Window_VariableChoice\<close>

text \<open>
  Lines 62-65: every choice of the session (none without a session) is appended to the
  command list with \<^verbatim>\<open>addCommand\<close>.
\<close>

definition makeCommandList :: "game \<Rightarrow> choice_window \<Rightarrow> choice_window" where
  "makeCommandList g w =
     (let choiceData = (case variableChoiceData g of None \<Rightarrow> [] | Some d \<Rightarrow> choices d)
      in w\<lparr>command_list := command_list w @ choiceData\<rparr>)"

text \<open>\<^verbatim>\<open>Window_Command.refresh\<close> clears the command list, rebuilds it and repaints.\<close>

definition refresh :: "game \<Rightarrow> choice_window \<Rightarrow> choice_window" where
  "refresh g w = makeCommandList g (w\<lparr>command_list := []\<rparr>)"

text \<open>
  Lines 72-110: returns early without choices; otherwise moves and resizes the window
  (not modelled) and ends with \<^verbatim>\<open>this.refresh()\<close>.
\<close>

definition adjustWindowSize :: "game \<Rightarrow> choice_window \<Rightarrow> choice_window" where
  "adjustWindowSize g w =
     (let choiceData = (case variableChoiceData g of None \<Rightarrow> [] | Some d \<Rightarrow> choices d)
      in if length choiceData = 0 then w else refresh g w)"

text \<open>
  Lines 123-136. \<^verbatim>\<open>targetVariableId > 0\<close> is false when there is no session object.
\<close>

definition callOkHandler :: "choice_window \<times> game \<Rightarrow> choice_window \<times> game" where
  "callOkHandler = (\<lambda>(w, g).
     let selectedIndex = cursor_index w;
         g1 = (case variableChoiceData g of
                 None \<Rightarrow> g
               | Some d \<Rightarrow>
                   if variableId d > 0
                   then setTimeout 100 (variableId d)
                          (setValue (variableId d) (selectedIndex + 1) g)
                   else g);
         w1 = close_w (deactivate w)
      in (w1, case variableChoiceData g1 of
                None \<Rightarrow> g1
              | Some d \<Rightarrow> g1\<lparr>variableChoiceData := Some (d\<lparr>isActive := False\<rparr>)\<rparr>))"

text \<open>
  \<^verbatim>\<open>Window_Selectable.processOk\<close> of the engine: when the current item is enabled it
  deactivates the window and calls \<^verbatim>\<open>callOkHandler\<close>; otherwise it only plays the buzzer.
\<close>

definition processOk :: "choice_window \<times> game \<Rightarrow> choice_window \<times> game" where
  "processOk = (\<lambda>(w, g).
     if isCurrentItemEnabled w then callOkHandler (deactivate w, g) else (w, g))"

text \<open>Lines 139-141: the body is empty.\<close>

definition processCancel :: "choice_window \<times> game \<Rightarrow> choice_window \<times> game" where
  "processCancel = (\<lambda>(w, g). (w, g))"

text \<open>The assignment \<^verbatim>\<open>forcedIndex = null\<close> on the session object (lines 119 and 177).\<close>

definition clearForcedIndex :: "game \<Rightarrow> game" where
  "clearForcedIndex g =
     (case variableChoiceData g of
        None \<Rightarrow> g
      | Some d \<Rightarrow> g\<lparr>variableChoiceData := Some (d\<lparr>forcedIndex := None\<rparr>)\<rparr>)"

text \<open>
  Lines 112-121, after \<^verbatim>\<open>super.update()\<close>: the engine's own update (input handling and
  the openness animation) has run, and the function is applied to the state it left.
\<close>

definition update :: "choice_window \<times> game \<Rightarrow> choice_window \<times> game" where
  "update = (\<lambda>(w, g).
     case variableChoiceData g of
       None \<Rightarrow> (w, g)
     | Some d \<Rightarrow>
         (case forcedIndex d of
            None \<Rightarrow> (w, g)
          | Some selectedIndex \<Rightarrow>
              if active w
              then (let (w1, g1) = processOk (select w selectedIndex, g)
                    in (w1, clearForcedIndex g1))
              else (w, g)))"

subsection \<open>Scene_Map\<close>

text \<open>
  Lines 187-229. The function reads \<^verbatim>\<open>choiceData.distanceCondition\<close> and then
  \<^verbatim>\<open>distanceCondition.eventId\<close> unguarded: without a session object or without a
  condition it throws a TypeError, which is the result \<open>None\<close>.
\<close>

definition checkDistanceCondition ::
  "choice_window option \<times> game \<Rightarrow> (choice_window option \<times> game) option" where
  "checkDistanceCondition = (\<lambda>(cw, g).
     case variableChoiceData g of
       None \<Rightarrow> None
     | Some d \<Rightarrow>
         (case distanceCondition d of
            None \<Rightarrow> None
          | Some dc \<Rightarrow>
              (case mapEvents g (eventId dc) of
                 None \<Rightarrow> Some (cw, g)
               | Some (eventPositionX, eventPositionY) \<Rightarrow>
                   let distanceX = \<bar>playerX g - eventPositionX\<bar>;
                       distanceY = \<bar>playerY g - eventPositionY\<bar>;
                       calculatedDistance = distanceX + distanceY
                   in if calculatedDistance \<le> distance dc
                      then (let g1 = (if variableId d > 0
                                      then setTimeout 100 (variableId d)
                                             (setValue (variableId d) (index dc) g)
                                      else g);
                                cw1 = (case cw of
                                         None \<Rightarrow> None
                                       | Some w \<Rightarrow>
                                           if active w then Some (close_w (deactivate w))
                                           else Some w)
                            in Some (cw1,
                                 g1\<lparr>variableChoiceData :=
                                      Some (d\<lparr>isActive := False, distanceCondition := None\<rparr>)\<rparr>))
                      else Some (cw, g))))"

text \<open>
  Lines 161-179, the first \<^verbatim>\<open>if\<close> of \<^verbatim>\<open>updateVariableChoice\<close>: the activation of the
  window for a session that is active while the window is closed and inactive.
\<close>

definition activateChoiceWindow ::
  "choice_window option \<times> game \<Rightarrow> choice_window option \<times> game" where
  "activateChoiceWindow = (\<lambda>(cw, g).
     case variableChoiceData g of
       None \<Rightarrow> (cw, g)
     | Some choiceData \<Rightarrow>
         (case cw of
            None \<Rightarrow> (cw, g)
          | Some choiceWindow \<Rightarrow>
              if isActive choiceData \<and> openness choiceWindow = 0 \<and> \<not> active choiceWindow
              then (let g1 = (if variableId choiceData > 0
                              then setValue (variableId choiceData) 0 g else g);
                        w1 = refresh g1 choiceWindow;
                        w2 = adjustWindowSize g1 w1;
                        w3 = open_w w2;
                        w4 = activate w3;
                        w5 = select w4 (- 1)
                    in case forcedIndex choiceData of
                         None \<Rightarrow> (Some w5, g1)
                       | Some k \<Rightarrow>
                           (let (w6, g2) = processOk (select w5 k, g1)
                            in (Some w6, clearForcedIndex g2)))
              else (cw, g)))"

text \<open>
  \<^verbatim>\<open>!choiceData.forcedIndex\<close> of line 182: true for \<^verbatim>\<open>null\<close> and, the value being a
  number, for \<^verbatim>\<open>0\<close>.
\<close>

definition notForcedIndex :: "choice_data \<Rightarrow> bool" where
  "notForcedIndex d \<longleftrightarrow> (case forcedIndex d of None \<Rightarrow> True | Some k \<Rightarrow> k = 0)"

text \<open>Lines 157-185.\<close>

definition updateVariableChoice ::
  "choice_window option \<times> game \<Rightarrow> (choice_window option \<times> game) option" where
  "updateVariableChoice st =
     (let (cw, g) = activateChoiceWindow st
      in case variableChoiceData g of
           None \<Rightarrow> Some (cw, g)
         | Some choiceData \<Rightarrow>
             if isActive choiceData \<and> distanceCondition choiceData \<noteq> None
                \<and> notForcedIndex choiceData
             then checkDistanceCondition (cw, g)
             else Some (cw, g))"

text \<open>
  Lines 151-155: the scene's update runs the engine's update, which updates the windows
  of the scene, and then \<^verbatim>\<open>updateVariableChoice\<close>. The rest of the engine's frame (map,
  events and scripts, which may move the event or start a session) is not part of the
  function: it describes a frame in which that work leaves session and positions alone.
\<close>

definition Scene_Map_update ::
  "choice_window option \<times> game \<Rightarrow> (choice_window option \<times> game) option" where
  "Scene_Map_update = (\<lambda>(cw, g).
     case cw of
       None \<Rightarrow> updateVariableChoice (None, g)
     | Some w \<Rightarrow> (let (w1, g1) = update (w, g) in updateVariableChoice (Some w1, g1)))"

subsection \<open>Game_System\<close>

text \<open>Lines 231-249.\<close>

definition setupVariableChoice ::
  "string list \<Rightarrow> int \<Rightarrow> distance_condition option \<Rightarrow> game \<Rightarrow> game" where
  "setupVariableChoice cs vid dc g =
     (if sessionActive g then g
      else (let g1 = (if vid > 0 then setValue vid (- 1) g else g)
            in g1\<lparr>variableChoiceData :=
                    Some \<lparr>choices = cs, variableId = vid, isActive = True,
                          forcedIndex = None, distanceCondition = dc\<rparr>\<rparr>))"

section \<open>Example states\<close>

text \<open>
  The trigger and the choices of the plugin's help text, a session on variable 10, the
  window as \<^verbatim>\<open>initialize\<close> leaves it (inactive, openness 0), the same window while it is
  still closing after an earlier session, and a map where event 2 stands one tile from
  the player.
\<close>

definition example_trigger :: distance_condition where
  "example_trigger = \<lparr>eventId = 2, distance = 2, index = 99\<rparr>"

definition example_session :: choice_data where
  "example_session =
     \<lparr>choices = [''A'', ''B'', ''C''], variableId = 10, isActive = True,
      forcedIndex = None, distanceCondition = None\<rparr>"

definition closed_window :: choice_window where
  "closed_window =
     \<lparr>active = False, openness = 0, opening_flag = False, closing_flag = False,
      cursor_index = 0, command_list = []\<rparr>"

definition closing_window :: choice_window where
  "closing_window =
     \<lparr>active = False, openness = 191, opening_flag = False, closing_flag = True,
      cursor_index = 1, command_list = [''A'', ''B'', ''C'']\<rparr>"

definition example_game :: game where
  "example_game =
     \<lparr>variableChoiceData = None, gameVariables = (\<lambda>_. 0), setValueLog = [],
      timeouts = [], mapEvents = (\<lambda>_. None)(2 := Some (3, 4)), playerX = 3, playerY = 5\<rparr>"

text \<open>
  The window while it is open and awaiting input, a session on variable 20 that carries
  the trigger, and the example map with a given session installed.
\<close>

definition open_window :: choice_window where
  "open_window =
     \<lparr>active = True, openness = 255, opening_flag = False, closing_flag = False,
      cursor_index = 1, command_list = [''A'', ''B'', ''C'']\<rparr>"

definition armed_session :: choice_data where
  "armed_session =
     \<lparr>choices = [''X'', ''Y''], variableId = 20, isActive = True,
      forcedIndex = None, distanceCondition = Some example_trigger\<rparr>"

definition in_game :: "choice_data \<Rightarrow> game" where
  "in_game d = example_game\<lparr>variableChoiceData := Some d\<rparr>"

section \<open>Properties of the steps\<close>

text \<open>
  \<^verbatim>\<open>updateVariableChoice\<close> never throws: it calls \<^verbatim>\<open>checkDistanceCondition\<close> only with a
  session object that carries a condition.
\<close>

lemma updateVariableChoice_no_TypeError: "updateVariableChoice st \<noteq> None"
  by (cases "activateChoiceWindow st")
    (auto simp add: updateVariableChoice_def checkDistanceCondition_def Let_def
      split: option.splits prod.splits)

text \<open>
  The activation step with a pending forced index that addresses one of the choices:
  the variable is reset to 0, the list is rebuilt, the window is opened and activated,
  and \<^verbatim>\<open>processOk\<close> commits at once, so the window ends inactive and closed.
\<close>

lemma activateChoiceWindow_forced:
  assumes "variableChoiceData g = Some d" and "isActive d" and "forcedIndex d = Some k"
    and "openness w = 0" and "\<not> active w"
    and "0 \<le> k" and "k < int (length (choices d))"
  shows "activateChoiceWindow (Some w, g) =
           (Some (w\<lparr>active := False, opening_flag := False, closing_flag := False,
                    cursor_index := k, command_list := choices d\<rparr>),
            (if variableId d > 0
             then setTimeout 100 (variableId d)
                    (setValue (variableId d) (k + 1) (setValue (variableId d) 0 g))
             else g)
              \<lparr>variableChoiceData := Some (d\<lparr>isActive := False, forcedIndex := None\<rparr>)\<rparr>)"
proof -
  from assms have nonempty: "choices d \<noteq> []" by auto
  with assms show ?thesis
    by (simp add: activateChoiceWindow_def Let_def refresh_def makeCommandList_def
        adjustWindowSize_def open_w_def activate_def select_def processOk_def
        isCurrentItemEnabled_def callOkHandler_def deactivate_def close_w_def
        setValue_def setTimeout_def clearForcedIndex_def)
qed

text \<open>The activation step leaves a window alone that is active or not fully closed.\<close>

lemma activateChoiceWindow_not_ready:
  assumes "openness w \<noteq> 0 \<or> active w"
  shows "activateChoiceWindow (Some w, g) = (Some w, g)"
  using assms by (auto simp add: activateChoiceWindow_def split: option.splits)

text \<open>The window's own update drains a pending forced index only while it is active.\<close>

lemma update_forced:
  assumes "variableChoiceData g = Some d" and "forcedIndex d = Some k" and "active w"
    and "0 \<le> k" and "k < int (length (command_list w))"
  shows "update (w, g) =
           (close_w (deactivate (select w k)),
            (if variableId d > 0
             then setTimeout 100 (variableId d) (setValue (variableId d) (k + 1) g)
             else g)
              \<lparr>variableChoiceData := Some (d\<lparr>isActive := False, forcedIndex := None\<rparr>)\<rparr>)"
  using assms
  by (simp add: update_def Let_def select_def processOk_def
      isCurrentItemEnabled_def callOkHandler_def deactivate_def close_w_def
      setValue_def setTimeout_def clearForcedIndex_def)

lemma update_inactive:
  assumes "\<not> active w"
  shows "update (w, g) = (w, g)"
  using assms by (simp add: update_def split: option.splits)

text \<open>
  The activation step without a pending forced index: the variable is reset to 0, the
  list is rebuilt and the window is opened, activated and left without a selection.
\<close>

lemma activateChoiceWindow_unforced:
  assumes "variableChoiceData g = Some d" and "isActive d" and "forcedIndex d = None"
    and "openness w = 0" and "\<not> active w"
  shows "activateChoiceWindow (Some w, g) =
           (Some (w\<lparr>active := True, opening_flag := True, closing_flag := False,
                    cursor_index := - 1, command_list := choices d\<rparr>),
            if variableId d > 0 then setValue (variableId d) 0 g else g)"
  using assms
  by (simp add: activateChoiceWindow_def Let_def refresh_def makeCommandList_def
      adjustWindowSize_def open_w_def activate_def select_def setValue_def)

text \<open>Without a window the activation step does nothing.\<close>

lemma activateChoiceWindow_no_window:
  "activateChoiceWindow (None, g) = (None, g)"
  by (simp add: activateChoiceWindow_def split: option.splits)

text \<open>Without a pending forced index the window's own update does nothing.\<close>

lemma update_unforced:
  assumes "variableChoiceData g = Some d" and "forcedIndex d = None"
  shows "update (w, g) = (w, g)"
  using assms by (simp add: update_def)

text \<open>
  A direct call of \<^verbatim>\<open>checkDistanceCondition\<close> with the event within the distance.
\<close>

lemma checkDistanceCondition_fires:
  assumes "variableChoiceData g = Some d" and "isActive d"
    and "distanceCondition d = Some dc"
    and "mapEvents g (eventId dc) = Some (ex, ey)"
    and "\<bar>playerX g - ex\<bar> + \<bar>playerY g - ey\<bar> \<le> distance dc"
  shows "checkDistanceCondition (cw, g) =
           Some (map_option (\<lambda>w. if active w then close_w (deactivate w) else w) cw,
                 (if variableId d > 0
                  then setTimeout 100 (variableId d) (setValue (variableId d) (index dc) g)
                  else g)
                   \<lparr>variableChoiceData :=
                      Some (d\<lparr>isActive := False, distanceCondition := None\<rparr>)\<rparr>)"
  using assms
  by (cases cw) (simp_all add: checkDistanceCondition_def Let_def)

section \<open>The claims\<close>

text \<open>
  Claim C1. While a session is active, \<^verbatim>\<open>setupVariableChoice\<close> with any arguments returns
  at line 234: the whole state is unchanged, so the session keeps its choices, variable
  id, forced index and trigger, and no \<^verbatim>\<open>setValue\<close> call (no write of -1) is made.
\<close>

theorem setupVariableChoice_active_noop:
  assumes "variableChoiceData g = Some d" and "isActive d"
  shows "setupVariableChoice newChoices newVariableId newCondition g = g"
  using assms by (simp add: setupVariableChoice_def sessionActive_def)

theorem setupVariableChoice_active_noop_witness:
  "variableChoiceData (example_game\<lparr>variableChoiceData := Some example_session\<rparr>) = Some example_session
   \<and> isActive example_session
   \<and> setupVariableChoice [''X'', ''Y''] 20 (Some example_trigger)
        (example_game\<lparr>variableChoiceData := Some example_session\<rparr>)
      = example_game\<lparr>variableChoiceData := Some example_session\<rparr>"
  using setupVariableChoice_active_noop
    [of "example_game\<lparr>variableChoiceData := Some example_session\<rparr>" example_session
        "[''X'', ''Y'']" 20 "Some example_trigger"]
  by (simp add: example_session_def)

text \<open>
  Claim C2. A commit with the cursor on index \<open>i\<close>, on a session whose variable id is
  positive, writes \<open>i + 1\<close> to that variable, registers the timer that resets the
  variable to 0 after 100 ms, deactivates and closes the window and clears
  \<^verbatim>\<open>isActive\<close>.
\<close>

theorem callOkHandler_commit:
  assumes "variableChoiceData g = Some d" and "variableId d > 0" and "cursor_index w = i"
  shows "callOkHandler (w, g) =
           (close_w (deactivate w),
            (setTimeout 100 (variableId d) (setValue (variableId d) (i + 1) g))
              \<lparr>variableChoiceData := Some (d\<lparr>isActive := False\<rparr>)\<rparr>)
         \<and> gameVariables (snd (callOkHandler (w, g))) (variableId d) = i + 1
         \<and> setValueLog (snd (callOkHandler (w, g))) = setValueLog g @ [(variableId d, i + 1)]
         \<and> timeouts (snd (callOkHandler (w, g))) = timeouts g @ [(100, variableId d)]
         \<and> gameVariables (timeoutCallback (100, variableId d) (snd (callOkHandler (w, g))))
              (variableId d) = 0
         \<and> \<not> active (fst (callOkHandler (w, g)))
         \<and> \<not> sessionActive (snd (callOkHandler (w, g)))"
  using assms
  by (simp add: callOkHandler_def setTimeout_def setValue_def timeoutCallback_def
      close_w_def deactivate_def sessionActive_def Let_def)

theorem callOkHandler_commit_witness:
  "variableChoiceData (in_game example_session) = Some example_session
   \<and> 0 < variableId example_session
   \<and> cursor_index open_window = 1
   \<and> gameVariables (snd (callOkHandler (open_window, in_game example_session))) 10 = 2
   \<and> setValueLog (snd (callOkHandler (open_window, in_game example_session))) = [(10, 2)]
   \<and> timeouts (snd (callOkHandler (open_window, in_game example_session))) = [(100, 10)]
   \<and> gameVariables (timeoutCallback (100, 10)
        (snd (callOkHandler (open_window, in_game example_session)))) 10 = 0
   \<and> \<not> active (fst (callOkHandler (open_window, in_game example_session)))
   \<and> closing_flag (fst (callOkHandler (open_window, in_game example_session)))
   \<and> \<not> sessionActive (snd (callOkHandler (open_window, in_game example_session)))"
  using callOkHandler_commit [of "in_game example_session" example_session open_window 1]
  by (simp add: in_game_def example_session_def example_game_def open_window_def
      close_w_def deactivate_def setValue_def setTimeout_def timeoutCallback_def
      sessionActive_def)

text \<open>
  Claim C3, as stated, fails on a tick with a pending forced index: the session is
  active, the trigger is armed, event 2 stands one tile from the player, within the
  distance 2, and yet with forced index 1 pending and the window still closing neither
  \<^verbatim>\<open>updateVariableChoice\<close> nor the scene's update changes anything. The guard of line 182
  skips the monitor.
\<close>

theorem distance_trigger_tick_counterexample:
  "sessionActive (in_game (armed_session\<lparr>forcedIndex := Some 1\<rparr>))
   \<and> distanceCondition (armed_session\<lparr>forcedIndex := Some 1\<rparr>) = Some example_trigger
   \<and> mapEvents (in_game (armed_session\<lparr>forcedIndex := Some 1\<rparr>)) (eventId example_trigger)
       = Some (3, 4)
   \<and> \<bar>playerX (in_game (armed_session\<lparr>forcedIndex := Some 1\<rparr>)) - 3\<bar>
       + \<bar>playerY (in_game (armed_session\<lparr>forcedIndex := Some 1\<rparr>)) - 4\<bar>
       \<le> distance example_trigger
   \<and> updateVariableChoice
        (Some closing_window, in_game (armed_session\<lparr>forcedIndex := Some 1\<rparr>)) =
       Some (Some closing_window, in_game (armed_session\<lparr>forcedIndex := Some 1\<rparr>))
   \<and> Scene_Map_update
        (Some closing_window, in_game (armed_session\<lparr>forcedIndex := Some 1\<rparr>)) =
       Some (Some closing_window, in_game (armed_session\<lparr>forcedIndex := Some 1\<rparr>))"
  by (simp add: in_game_def armed_session_def example_game_def closing_window_def
      example_trigger_def sessionActive_def
      Scene_Map_update_def update_def updateVariableChoice_def activateChoiceWindow_def
      notForcedIndex_def)

text \<open>
  Claim C3, amended. On a tick on which the session is active, its distance condition is
  set, no forced index is pending, the event exists and the Manhattan distance between
  player and event is within the condition's distance, \<^verbatim>\<open>updateVariableChoice\<close> (and with
  it the scene's update) resolves the session through the monitor: when the variable id
  is positive it writes the condition's \<^verbatim>\<open>index\<close> as it is (not \<open>index + 1\<close>) as the last
  write of the tick and registers the 100 ms timer whose callback resets that variable
  to 0; it deactivates and closes the window if it is active, also when the activation
  step of the same tick has just opened it (after resetting the variable to 0); it
  clears \<^verbatim>\<open>isActive\<close> and the condition. With a variable id that is not positive
  nothing is written and no timer is registered.
\<close>

theorem distance_trigger_resolves_tick:
  assumes "variableChoiceData g = Some d" and "isActive d"
    and "distanceCondition d = Some dc"
    and "mapEvents g (eventId dc) = Some (ex, ey)"
    and "\<bar>playerX g - ex\<bar> + \<bar>playerY g - ey\<bar> \<le> distance dc"
    and "forcedIndex d = None"
  shows "updateVariableChoice (Some w, g) =
           Some (Some (if openness w = 0 \<and> \<not> active w
                       then w\<lparr>active := False, opening_flag := False, closing_flag := False,
                              cursor_index := - 1, command_list := choices d\<rparr>
                       else if active w then close_w (deactivate w) else w),
                 (if variableId d > 0
                  then setTimeout 100 (variableId d)
                         (setValue (variableId d) (index dc)
                            (if openness w = 0 \<and> \<not> active w
                             then setValue (variableId d) 0 g else g))
                  else g)
                   \<lparr>variableChoiceData :=
                      Some (d\<lparr>isActive := False, distanceCondition := None\<rparr>)\<rparr>)
         \<and> Scene_Map_update (Some w, g) = updateVariableChoice (Some w, g)
         \<and> updateVariableChoice (None, g) =
             Some (None,
                   (if variableId d > 0
                    then setTimeout 100 (variableId d) (setValue (variableId d) (index dc) g)
                    else g)
                     \<lparr>variableChoiceData :=
                        Some (d\<lparr>isActive := False, distanceCondition := None\<rparr>)\<rparr>)
         \<and> \<not> sessionActive (snd (the (updateVariableChoice (Some w, g))))
         \<and> (variableId d > 0 \<longrightarrow>
               gameVariables (snd (the (updateVariableChoice (Some w, g)))) (variableId d)
                 = index dc
               \<and> last (setValueLog (snd (the (updateVariableChoice (Some w, g)))))
                 = (variableId d, index dc)
               \<and> timeouts (snd (the (updateVariableChoice (Some w, g))))
                 = timeouts g @ [(100, variableId d)]
               \<and> gameVariables
                   (timeoutCallback (100, variableId d)
                      (snd (the (updateVariableChoice (Some w, g))))) (variableId d) = 0)
         \<and> (\<not> variableId d > 0 \<longrightarrow>
               setValueLog (snd (the (updateVariableChoice (Some w, g)))) = setValueLog g
               \<and> timeouts (snd (the (updateVariableChoice (Some w, g)))) = timeouts g)"
proof -
  have tick: "updateVariableChoice (Some w, g) =
           Some (Some (if openness w = 0 \<and> \<not> active w
                       then w\<lparr>active := False, opening_flag := False, closing_flag := False,
                              cursor_index := - 1, command_list := choices d\<rparr>
                       else if active w then close_w (deactivate w) else w),
                 (if variableId d > 0
                  then setTimeout 100 (variableId d)
                         (setValue (variableId d) (index dc)
                            (if openness w = 0 \<and> \<not> active w
                             then setValue (variableId d) 0 g else g))
                  else g)
                   \<lparr>variableChoiceData :=
                      Some (d\<lparr>isActive := False, distanceCondition := None\<rparr>)\<rparr>)"
  proof (cases "openness w = 0 \<and> \<not> active w")
    case True
    with assms show ?thesis
      by (simp add: updateVariableChoice_def activateChoiceWindow_unforced
          notForcedIndex_def checkDistanceCondition_def Let_def setValue_def
          setTimeout_def close_w_def deactivate_def)
  next
    case False
    then have "openness w \<noteq> 0 \<or> active w" by simp
    with assms False show ?thesis
      by (simp add: updateVariableChoice_def activateChoiceWindow_not_ready
          notForcedIndex_def checkDistanceCondition_def Let_def)
  qed
  have frame: "Scene_Map_update (Some w, g) = updateVariableChoice (Some w, g)"
    using assms by (simp add: Scene_Map_update_def update_unforced)
  have nowin: "updateVariableChoice (None, g) =
             Some (None,
                   (if variableId d > 0
                    then setTimeout 100 (variableId d) (setValue (variableId d) (index dc) g)
                    else g)
                     \<lparr>variableChoiceData :=
                        Some (d\<lparr>isActive := False, distanceCondition := None\<rparr>)\<rparr>)"
    using assms
    by (simp add: updateVariableChoice_def activateChoiceWindow_no_window
        notForcedIndex_def checkDistanceCondition_def Let_def)
  show ?thesis
    unfolding frame nowin
    by (simp add: tick setValue_def setTimeout_def timeoutCallback_def sessionActive_def)
qed

theorem distance_trigger_resolves_tick_witness:
  "variableChoiceData (in_game armed_session) = Some armed_session
   \<and> isActive armed_session
   \<and> distanceCondition armed_session = Some example_trigger
   \<and> mapEvents (in_game armed_session) (eventId example_trigger) = Some (3, 4)
   \<and> \<bar>playerX (in_game armed_session) - 3\<bar> + \<bar>playerY (in_game armed_session) - 4\<bar>
        \<le> distance example_trigger
   \<and> forcedIndex armed_session = None
   \<and> 0 < variableId armed_session
   \<and> updateVariableChoice (Some open_window, in_game armed_session) =
       Some (Some (open_window\<lparr>active := False, closing_flag := True\<rparr>),
             example_game
               \<lparr>gameVariables := (\<lambda>_. 0)(20 := 99), setValueLog := [(20, 99)],
                timeouts := [(100, 20)],
                variableChoiceData :=
                  Some (armed_session\<lparr>isActive := False, distanceCondition := None\<rparr>)\<rparr>)
   \<and> Scene_Map_update (Some open_window, in_game armed_session) =
       updateVariableChoice (Some open_window, in_game armed_session)
   \<and> gameVariables (snd (the (updateVariableChoice (Some open_window, in_game armed_session))))
        20 = 99
   \<and> gameVariables
        (timeoutCallback (100, 20)
           (snd (the (updateVariableChoice (Some open_window, in_game armed_session))))) 20 = 0
   \<and> updateVariableChoice (Some closed_window, in_game armed_session) =
       Some (Some (closed_window\<lparr>cursor_index := - 1, command_list := [''X'', ''Y'']\<rparr>),
             example_game
               \<lparr>gameVariables := (\<lambda>_. 0)(20 := 99), setValueLog := [(20, 0), (20, 99)],
                timeouts := [(100, 20)],
                variableChoiceData :=
                  Some (armed_session\<lparr>isActive := False, distanceCondition := None\<rparr>)\<rparr>)"
proof -
  have h1: "variableChoiceData (in_game armed_session) = Some armed_session"
    by (simp add: in_game_def)
  have h2: "isActive armed_session"
    and h3: "distanceCondition armed_session = Some example_trigger"
    and h6: "forcedIndex armed_session = None"
    and h7: "0 < variableId armed_session"
    by (simp_all add: armed_session_def)
  have h4: "mapEvents (in_game armed_session) (eventId example_trigger) = Some (3, 4)"
    by (simp add: in_game_def example_game_def example_trigger_def)
  have h5: "\<bar>playerX (in_game armed_session) - 3\<bar> + \<bar>playerY (in_game armed_session) - 4\<bar>
        \<le> distance example_trigger"
    by (simp add: in_game_def example_game_def example_trigger_def)
  note opened = distance_trigger_resolves_tick [OF h1 h2 h3 h4 h5 h6, of open_window]
  note closed = distance_trigger_resolves_tick [OF h1 h2 h3 h4 h5 h6, of closed_window]
  have o: "updateVariableChoice (Some open_window, in_game armed_session) =
       Some (Some (open_window\<lparr>active := False, closing_flag := True\<rparr>),
             example_game
               \<lparr>gameVariables := (\<lambda>_. 0)(20 := 99), setValueLog := [(20, 99)],
                timeouts := [(100, 20)],
                variableChoiceData :=
                  Some (armed_session\<lparr>isActive := False, distanceCondition := None\<rparr>)\<rparr>)"
    using opened
    by (simp add: in_game_def armed_session_def example_game_def example_trigger_def
        open_window_def close_w_def deactivate_def setValue_def setTimeout_def)
  have c: "updateVariableChoice (Some closed_window, in_game armed_session) =
       Some (Some (closed_window\<lparr>cursor_index := - 1, command_list := [''X'', ''Y'']\<rparr>),
             example_game
               \<lparr>gameVariables := (\<lambda>_. 0)(20 := 99), setValueLog := [(20, 0), (20, 99)],
                timeouts := [(100, 20)],
                variableChoiceData :=
                  Some (armed_session\<lparr>isActive := False, distanceCondition := None\<rparr>)\<rparr>)"
    using closed
    by (simp add: in_game_def armed_session_def example_game_def example_trigger_def
        closed_window_def setValue_def setTimeout_def)
  have v: "gameVariables (snd (the (updateVariableChoice (Some open_window, in_game armed_session))))
        20 = 99"
    and t: "gameVariables
        (timeoutCallback (100, 20)
           (snd (the (updateVariableChoice (Some open_window, in_game armed_session))))) 20 = 0"
    by (simp_all add: o timeoutCallback_def setValue_def)
  have f: "Scene_Map_update (Some open_window, in_game armed_session) =
       updateVariableChoice (Some open_window, in_game armed_session)"
    using opened by blast
  from h1 h2 h3 h4 h5 h6 h7 o c v t f show ?thesis
    by blast
qed

text \<open>
  Claim C4, as stated, fails on a tick in which the window is still closing (inactive,
  openness above 0): a pending forced index 1 is not resolved on that tick, and a
  pending forced index 0 does not even keep the trigger from firing, since line 182
  tests \<^verbatim>\<open>!choiceData.forcedIndex\<close>.
\<close>

theorem forced_index_priority_counterexample:
  "Scene_Map_update (Some closing_window, in_game (armed_session\<lparr>forcedIndex := Some 1\<rparr>)) =
       Some (Some closing_window, in_game (armed_session\<lparr>forcedIndex := Some 1\<rparr>))
   \<and> Scene_Map_update (Some closing_window, in_game (armed_session\<lparr>forcedIndex := Some 0\<rparr>)) =
       Some (Some closing_window,
             example_game
               \<lparr>gameVariables := (\<lambda>_. 0)(20 := 99), setValueLog := [(20, 99)],
                timeouts := [(100, 20)],
                variableChoiceData :=
                  Some (armed_session\<lparr>isActive := False, forcedIndex := Some 0,
                                      distanceCondition := None\<rparr>)\<rparr>)"
  by (simp add: in_game_def armed_session_def example_game_def closing_window_def
      example_trigger_def
      Scene_Map_update_def update_def updateVariableChoice_def activateChoiceWindow_def
      notForcedIndex_def checkDistanceCondition_def Let_def setValue_def setTimeout_def)

text \<open>
  Claim C4, amended. On a tick of the scene with an active session, an armed trigger and
  a pending forced index \<open>k\<close> that addresses a listed choice: if the window is active, its
  update commits \<open>k + 1\<close> and clears the forced index; if the window is inactive and
  fully closed, the activation step does so; otherwise, for \<open>k \<noteq> 0\<close>, the tick changes
  nothing and the forced index stays pending. In all three cases the result does not
  depend on where the event stands: the trigger is not evaluated on that tick.
\<close>

theorem forced_index_priority:
  assumes "variableChoiceData g = Some d" and "isActive d"
    and "distanceCondition d = Some dc" and "forcedIndex d = Some k"
    and "0 \<le> k"
    and "k < int (length (if active w then command_list w else choices d))"
    and "k \<noteq> 0 \<or> active w \<or> openness w = 0"
  shows "Scene_Map_update (Some w, g) =
           Some (if active w
                 then (Some (close_w (deactivate (select w k))),
                       (if variableId d > 0
                        then setTimeout 100 (variableId d) (setValue (variableId d) (k + 1) g)
                        else g)
                         \<lparr>variableChoiceData :=
                            Some (d\<lparr>isActive := False, forcedIndex := None\<rparr>)\<rparr>)
                 else if openness w = 0
                 then (Some (w\<lparr>active := False, opening_flag := False, closing_flag := False,
                               cursor_index := k, command_list := choices d\<rparr>),
                       (if variableId d > 0
                        then setTimeout 100 (variableId d)
                               (setValue (variableId d) (k + 1) (setValue (variableId d) 0 g))
                        else g)
                         \<lparr>variableChoiceData :=
                            Some (d\<lparr>isActive := False, forcedIndex := None\<rparr>)\<rparr>)
                 else (Some w, g))"
proof (cases "active w")
  case True
  with assms have u: "update (w, g) =
           (close_w (deactivate (select w k)),
            (if variableId d > 0
             then setTimeout 100 (variableId d) (setValue (variableId d) (k + 1) g)
             else g)
              \<lparr>variableChoiceData := Some (d\<lparr>isActive := False, forcedIndex := None\<rparr>)\<rparr>)"
    by (simp add: update_forced)
  show ?thesis
    using True
    by (simp add: Scene_Map_update_def u updateVariableChoice_def activateChoiceWindow_def
        setValue_def setTimeout_def)
next
  case False
  note inactive = False
  show ?thesis
  proof (cases "openness w = 0")
    case True
    with assms inactive have "updateVariableChoice (Some w, g) =
           Some (Some (w\<lparr>active := False, opening_flag := False, closing_flag := False,
                    cursor_index := k, command_list := choices d\<rparr>),
            (if variableId d > 0
             then setTimeout 100 (variableId d)
                    (setValue (variableId d) (k + 1) (setValue (variableId d) 0 g))
             else g)
              \<lparr>variableChoiceData := Some (d\<lparr>isActive := False, forcedIndex := None\<rparr>)\<rparr>)"
      unfolding updateVariableChoice_def
      by (simp add: activateChoiceWindow_forced setValue_def setTimeout_def)
    with inactive True show ?thesis
      by (simp add: Scene_Map_update_def update_inactive)
  next
    case False
    with assms inactive have "k \<noteq> 0" by simp
    with assms inactive False show ?thesis
      by (simp add: Scene_Map_update_def update_inactive updateVariableChoice_def
          activateChoiceWindow_not_ready notForcedIndex_def)
  qed
qed

theorem forced_index_priority_witness:
  "variableChoiceData (in_game (armed_session\<lparr>forcedIndex := Some 1\<rparr>))
     = Some (armed_session\<lparr>forcedIndex := Some 1\<rparr>)
   \<and> isActive (armed_session\<lparr>forcedIndex := Some 1\<rparr>)
   \<and> distanceCondition (armed_session\<lparr>forcedIndex := Some 1\<rparr>) = Some example_trigger
   \<and> forcedIndex (armed_session\<lparr>forcedIndex := Some 1\<rparr>) = Some 1
   \<and> (0::int) \<le> 1
   \<and> 1 < int (length (if active closing_window then command_list closing_window
                        else choices (armed_session\<lparr>forcedIndex := Some 1\<rparr>)))
   \<and> 1 < int (length (if active open_window then command_list open_window
                        else choices (armed_session\<lparr>forcedIndex := Some 1\<rparr>)))
   \<and> 1 < int (length (if active closed_window then command_list closed_window
                        else choices (armed_session\<lparr>forcedIndex := Some 1\<rparr>)))
   \<and> (1::int) \<noteq> 0
   \<and> Scene_Map_update (Some closing_window, in_game (armed_session\<lparr>forcedIndex := Some 1\<rparr>)) =
       Some (Some closing_window, in_game (armed_session\<lparr>forcedIndex := Some 1\<rparr>))
   \<and> Scene_Map_update (Some open_window, in_game (armed_session\<lparr>forcedIndex := Some 1\<rparr>)) =
       Some (Some (open_window\<lparr>active := False, closing_flag := True\<rparr>),
             example_game
               \<lparr>gameVariables := (\<lambda>_. 0)(20 := 2), setValueLog := [(20, 2)],
                timeouts := [(100, 20)],
                variableChoiceData := Some (armed_session\<lparr>isActive := False\<rparr>)\<rparr>)
   \<and> Scene_Map_update (Some closed_window, in_game (armed_session\<lparr>forcedIndex := Some 1\<rparr>)) =
       Some (Some (closed_window\<lparr>cursor_index := 1, command_list := [''X'', ''Y'']\<rparr>),
             example_game
               \<lparr>gameVariables := (\<lambda>_. 0)(20 := 2), setValueLog := [(20, 0), (20, 2)],
                timeouts := [(100, 20)],
                variableChoiceData := Some (armed_session\<lparr>isActive := False\<rparr>)\<rparr>)"
  using forced_index_priority
    [of "in_game (armed_session\<lparr>forcedIndex := Some 1\<rparr>)"
        "armed_session\<lparr>forcedIndex := Some 1\<rparr>" example_trigger 1 closing_window]
    forced_index_priority
    [of "in_game (armed_session\<lparr>forcedIndex := Some 1\<rparr>)"
        "armed_session\<lparr>forcedIndex := Some 1\<rparr>" example_trigger 1 open_window]
    forced_index_priority
    [of "in_game (armed_session\<lparr>forcedIndex := Some 1\<rparr>)"
        "armed_session\<lparr>forcedIndex := Some 1\<rparr>" example_trigger 1 closed_window]
  by (simp add: in_game_def armed_session_def example_game_def closing_window_def
      open_window_def closed_window_def setValue_def setTimeout_def select_def
      close_w_def deactivate_def)

text \<open>
  Claim C5, as stated, fails for a forced index outside the choices: with three choices
  and forced index 99 the activation step clears the forced index, but \<^verbatim>\<open>processOk\<close>
  commits nothing, the variable holds 0 and the window stays active, awaiting input.
\<close>

theorem forced_index_out_of_range_counterexample:
  "updateVariableChoice (Some closed_window, in_game (example_session\<lparr>forcedIndex := Some 99\<rparr>)) =
       Some (Some (closed_window\<lparr>active := True, opening_flag := True, cursor_index := 99,
                     command_list := [''A'', ''B'', ''C'']\<rparr>),
             example_game
               \<lparr>gameVariables := (\<lambda>_. 0)(10 := 0), setValueLog := [(10, 0)],
                variableChoiceData := Some example_session\<rparr>)"
  by (simp add: in_game_def example_session_def example_game_def closed_window_def
      updateVariableChoice_def activateChoiceWindow_def Let_def refresh_def
      makeCommandList_def adjustWindowSize_def open_w_def activate_def select_def
      processOk_def isCurrentItemEnabled_def clearForcedIndex_def setValue_def
      notForcedIndex_def)

text \<open>
  Claim C5, amended. If a forced index \<open>k\<close> that addresses one of the session's choices
  (\<open>0 \<le> k < length choices\<close>) is pending on an active session while the window is
  inactive and fully closed, then \<^verbatim>\<open>updateVariableChoice\<close> drains it in the activation
  step: the variable (when its id is positive) is reset to 0 and then receives
  \<open>k + 1\<close> with the 100 ms reset timer, the forced index is cleared, the session is no
  longer active and the window ends inactive and closed.
\<close>

theorem forced_index_drained_at_activation:
  assumes "variableChoiceData g = Some d" and "isActive d" and "forcedIndex d = Some k"
    and "openness w = 0" and "\<not> active w"
    and "0 \<le> k" and "k < int (length (choices d))"
  shows "updateVariableChoice (Some w, g) =
           Some (Some (w\<lparr>active := False, opening_flag := False, closing_flag := False,
                    cursor_index := k, command_list := choices d\<rparr>),
            (if variableId d > 0
             then setTimeout 100 (variableId d)
                    (setValue (variableId d) (k + 1) (setValue (variableId d) 0 g))
             else g)
              \<lparr>variableChoiceData := Some (d\<lparr>isActive := False, forcedIndex := None\<rparr>)\<rparr>)"
  unfolding updateVariableChoice_def activateChoiceWindow_forced [OF assms]
  by (simp add: setValue_def setTimeout_def)

theorem forced_index_drained_at_activation_witness:
  "variableChoiceData (in_game (example_session\<lparr>forcedIndex := Some 2\<rparr>))
     = Some (example_session\<lparr>forcedIndex := Some 2\<rparr>)
   \<and> isActive (example_session\<lparr>forcedIndex := Some 2\<rparr>)
   \<and> forcedIndex (example_session\<lparr>forcedIndex := Some 2\<rparr>) = Some 2
   \<and> openness closed_window = 0 \<and> \<not> active closed_window
   \<and> (0::int) \<le> 2 \<and> 2 < int (length (choices (example_session\<lparr>forcedIndex := Some 2\<rparr>)))
   \<and> updateVariableChoice (Some closed_window, in_game (example_session\<lparr>forcedIndex := Some 2\<rparr>)) =
       Some (Some (closed_window\<lparr>cursor_index := 2, command_list := [''A'', ''B'', ''C'']\<rparr>),
             example_game
               \<lparr>gameVariables := (\<lambda>_. 0)(10 := 3), setValueLog := [(10, 0), (10, 3)],
                timeouts := [(100, 10)],
                variableChoiceData := Some (example_session\<lparr>isActive := False\<rparr>)\<rparr>)"
  using forced_index_drained_at_activation
    [of "in_game (example_session\<lparr>forcedIndex := Some 2\<rparr>)"
        "example_session\<lparr>forcedIndex := Some 2\<rparr>" 2 closed_window]
  by (simp add: in_game_def example_session_def example_game_def closed_window_def
      setValue_def setTimeout_def)

text \<open>
  Claim C6, as stated, fails at the first tick after the start: the activation step
  (lines 163-165) resets the variable to 0 while the session is still active.
\<close>

theorem sentinel_counterexample:
  "updateVariableChoice (Some closed_window, setupVariableChoice [''A'', ''B''] 5 None example_game) \<noteq> None
   \<and> sessionActive (snd (the (updateVariableChoice
         (Some closed_window, setupVariableChoice [''A'', ''B''] 5 None example_game))))
   \<and> gameVariables (snd (the (updateVariableChoice
         (Some closed_window, setupVariableChoice [''A'', ''B''] 5 None example_game)))) 5 = 0"
  by (simp add: setupVariableChoice_def sessionActive_def setValue_def example_game_def
      closed_window_def
      updateVariableChoice_def activateChoiceWindow_def Let_def refresh_def
      makeCommandList_def adjustWindowSize_def open_w_def activate_def select_def)

text \<open>
  Claim C6, amended. Starting a session with a positive variable id, with or without a
  trigger, from a state without an active session leaves -1 in the variable and the
  session active. The activation step keeps that state as long as the window is active
  or not fully closed; once the window is inactive and fully closed it writes 0 to the
  variable, and the session is still active with the variable at 0. On a tick on which
  the trigger, if there is one, does not fire (its event is missing or beyond the
  distance), \<^verbatim>\<open>updateVariableChoice\<close> and the scene's update do exactly what the
  activation step does.
\<close>

theorem sentinel_until_activation:
  assumes "\<not> sessionActive g" and "vid > 0"
  shows "gameVariables (setupVariableChoice cs vid dc g) vid = - 1
         \<and> sessionActive (setupVariableChoice cs vid dc g)
         \<and> activateChoiceWindow (Some w, setupVariableChoice cs vid dc g) =
             (if openness w = 0 \<and> \<not> active w
              then (Some (w\<lparr>active := True, opening_flag := True, closing_flag := False,
                            cursor_index := - 1, command_list := cs\<rparr>),
                    setValue vid 0 (setupVariableChoice cs vid dc g))
              else (Some w, setupVariableChoice cs vid dc g))
         \<and> gameVariables (setValue vid 0 (setupVariableChoice cs vid dc g)) vid = 0
         \<and> sessionActive (setValue vid 0 (setupVariableChoice cs vid dc g))
         \<and> ((case dc of
                None \<Rightarrow> True
              | Some c \<Rightarrow>
                  (case mapEvents g (eventId c) of
                     None \<Rightarrow> True
                   | Some (ex, ey) \<Rightarrow>
                       \<not> \<bar>playerX g - ex\<bar> + \<bar>playerY g - ey\<bar> \<le> distance c))
              \<longrightarrow> updateVariableChoice (Some w, setupVariableChoice cs vid dc g) =
                    Some (activateChoiceWindow (Some w, setupVariableChoice cs vid dc g))
                  \<and> Scene_Map_update (Some w, setupVariableChoice cs vid dc g) =
                    Some (activateChoiceWindow (Some w, setupVariableChoice cs vid dc g)))"
proof -
  let ?g1 = "setupVariableChoice cs vid dc g"
  let ?d = "\<lparr>choices = cs, variableId = vid, isActive = True,
             forcedIndex = None, distanceCondition = dc\<rparr>"
  have g1: "?g1 = (setValue vid (- 1) g)\<lparr>variableChoiceData := Some ?d\<rparr>"
    using assms by (simp add: setupVariableChoice_def)
  have slot: "variableChoiceData ?g1 = Some ?d"
    by (simp add: g1)
  have act: "activateChoiceWindow (Some w, ?g1) =
             (if openness w = 0 \<and> \<not> active w
              then (Some (w\<lparr>active := True, opening_flag := True, closing_flag := False,
                            cursor_index := - 1, command_list := cs\<rparr>),
                    setValue vid 0 ?g1)
              else (Some w, ?g1))"
  proof (cases "openness w = 0 \<and> \<not> active w")
    case True
    then show ?thesis
      using activateChoiceWindow_unforced [OF slot, of w] assms by simp
  next
    case False
    then show ?thesis
      using activateChoiceWindow_not_ready [of w ?g1] by auto
  qed
  have upd: "update (w, ?g1) = (w, ?g1)"
    using update_unforced [OF slot] by simp
  have tick: "updateVariableChoice (Some w, ?g1) = Some (activateChoiceWindow (Some w, ?g1))"
    if quiet: "case dc of
                None \<Rightarrow> True
              | Some c \<Rightarrow>
                  (case mapEvents g (eventId c) of
                     None \<Rightarrow> True
                   | Some (ex, ey) \<Rightarrow>
                       \<not> \<bar>playerX g - ex\<bar> + \<bar>playerY g - ey\<bar> \<le> distance c)"
    unfolding updateVariableChoice_def act
    using quiet
    by (auto simp add: g1 setValue_def checkDistanceCondition_def notForcedIndex_def Let_def
        split: option.splits)
  have frame: "Scene_Map_update (Some w, ?g1) = updateVariableChoice (Some w, ?g1)"
    by (simp add: Scene_Map_update_def upd)
  have c1: "gameVariables ?g1 vid = - 1"
    by (simp add: g1 setValue_def)
  have c2: "sessionActive ?g1"
    by (simp add: g1 sessionActive_def)
  have c4: "gameVariables (setValue vid 0 ?g1) vid = 0"
    by (simp add: setValue_def)
  have c5: "sessionActive (setValue vid 0 ?g1)"
    by (simp add: g1 setValue_def sessionActive_def)
  from c1 c2 act c4 c5 tick frame show ?thesis
    by simp
qed

theorem sentinel_until_activation_witness:
  "\<not> sessionActive example_game \<and> (0::int) < 5
   \<and> mapEvents example_game (eventId (example_trigger\<lparr>eventId := 7\<rparr>)) = None
   \<and> gameVariables
        (setupVariableChoice [''A'', ''B''] 5 (Some (example_trigger\<lparr>eventId := 7\<rparr>)) example_game) 5
       = - 1
   \<and> updateVariableChoice
        (Some closing_window,
         setupVariableChoice [''A'', ''B''] 5 (Some (example_trigger\<lparr>eventId := 7\<rparr>)) example_game) =
       Some (Some closing_window,
         setupVariableChoice [''A'', ''B''] 5 (Some (example_trigger\<lparr>eventId := 7\<rparr>)) example_game)
   \<and> updateVariableChoice
        (Some closed_window,
         setupVariableChoice [''A'', ''B''] 5 (Some (example_trigger\<lparr>eventId := 7\<rparr>)) example_game) =
       Some (Some (closed_window\<lparr>active := True, opening_flag := True, closing_flag := False,
                     cursor_index := - 1, command_list := [''A'', ''B'']\<rparr>),
             example_game
               \<lparr>gameVariables := (\<lambda>_. 0)(5 := 0), setValueLog := [(5, - 1), (5, 0)],
                variableChoiceData :=
                  Some \<lparr>choices = [''A'', ''B''], variableId = 5, isActive = True,
                        forcedIndex = None,
                        distanceCondition = Some (example_trigger\<lparr>eventId := 7\<rparr>)\<rparr>\<rparr>)"
proof -
  let ?dc = "Some (example_trigger\<lparr>eventId := 7\<rparr>)"
  let ?g1 = "setupVariableChoice [''A'', ''B''] 5 ?dc example_game"
  have h1: "\<not> sessionActive example_game"
    by (simp add: sessionActive_def example_game_def)
  have h2: "(0::int) < 5" by simp
  have h3: "mapEvents example_game (eventId (example_trigger\<lparr>eventId := 7\<rparr>)) = None"
    by (simp add: example_game_def)
  have quiet: "case ?dc of
                None \<Rightarrow> True
              | Some c \<Rightarrow>
                  (case mapEvents example_game (eventId c) of
                     None \<Rightarrow> True
                   | Some (ex, ey) \<Rightarrow>
                       \<not> \<bar>playerX example_game - ex\<bar> + \<bar>playerY example_game - ey\<bar>
                           \<le> distance c)"
    using h3 by simp
  note closing = sentinel_until_activation [OF h1 h2, of "[''A'', ''B'']" ?dc closing_window]
  note closed = sentinel_until_activation [OF h1 h2, of "[''A'', ''B'']" ?dc closed_window]
  have m: "gameVariables ?g1 5 = - 1"
    using closing by blast
  have "updateVariableChoice (Some closing_window, ?g1) =
          Some (activateChoiceWindow (Some closing_window, ?g1))"
    using closing quiet by blast
  moreover have "activateChoiceWindow (Some closing_window, ?g1) = (Some closing_window, ?g1)"
    using closing by (simp add: closing_window_def)
  ultimately have a: "updateVariableChoice (Some closing_window, ?g1) =
       Some (Some closing_window, ?g1)"
    by simp
  have "updateVariableChoice (Some closed_window, ?g1) =
          Some (activateChoiceWindow (Some closed_window, ?g1))"
    using closed quiet by blast
  moreover have "activateChoiceWindow (Some closed_window, ?g1) =
       (Some (closed_window\<lparr>active := True, opening_flag := True, closing_flag := False,
                cursor_index := - 1, command_list := [''A'', ''B'']\<rparr>),
        setValue 5 0 ?g1)"
    using closed by (simp add: closed_window_def)
  moreover have "setValue 5 0 ?g1 =
       example_game
         \<lparr>gameVariables := (\<lambda>_. 0)(5 := 0), setValueLog := [(5, - 1), (5, 0)],
          variableChoiceData :=
            Some \<lparr>choices = [''A'', ''B''], variableId = 5, isActive = True,
                  forcedIndex = None, distanceCondition = ?dc\<rparr>\<rparr>"
    using h1 by (simp add: setupVariableChoice_def setValue_def example_game_def)
  ultimately have b: "updateVariableChoice (Some closed_window, ?g1) =
       Some (Some (closed_window\<lparr>active := True, opening_flag := True, closing_flag := False,
                     cursor_index := - 1, command_list := [''A'', ''B'']\<rparr>),
             example_game
               \<lparr>gameVariables := (\<lambda>_. 0)(5 := 0), setValueLog := [(5, - 1), (5, 0)],
                variableChoiceData :=
                  Some \<lparr>choices = [''A'', ''B''], variableId = 5, isActive = True,
                        forcedIndex = None, distanceCondition = ?dc\<rparr>\<rparr>)"
    by simp
  from h1 h2 h3 m a b show ?thesis
    by blast
qed

text \<open>
  Claim C7. \<^verbatim>\<open>processCancel\<close> is a no-op in every state: window, session, variables,
  write log and timers are what they were.
\<close>

theorem processCancel_noop: "processCancel (w, g) = (w, g)"
  by (simp add: processCancel_def)

text \<open>
  Claim C8. When the condition's event id names no event of the map,
  \<^verbatim>\<open>checkDistanceCondition\<close> returns at line 194 with the state unchanged: no write, the
  session still active, the condition still set.
\<close>

theorem checkDistanceCondition_missing_event:
  assumes "variableChoiceData g = Some d" and "isActive d"
    and "distanceCondition d = Some dc" and "mapEvents g (eventId dc) = None"
  shows "checkDistanceCondition (cw, g) = Some (cw, g)"
  using assms by (simp add: checkDistanceCondition_def)

theorem checkDistanceCondition_missing_event_witness:
  "variableChoiceData (in_game (armed_session\<lparr>distanceCondition := Some (example_trigger\<lparr>eventId := 7\<rparr>)\<rparr>))
     = Some (armed_session\<lparr>distanceCondition := Some (example_trigger\<lparr>eventId := 7\<rparr>)\<rparr>)
   \<and> isActive (armed_session\<lparr>distanceCondition := Some (example_trigger\<lparr>eventId := 7\<rparr>)\<rparr>)
   \<and> mapEvents (in_game (armed_session\<lparr>distanceCondition := Some (example_trigger\<lparr>eventId := 7\<rparr>)\<rparr>)) 7 = None
   \<and> checkDistanceCondition
        (Some open_window,
         in_game (armed_session\<lparr>distanceCondition := Some (example_trigger\<lparr>eventId := 7\<rparr>)\<rparr>)) =
       Some (Some open_window,
         in_game (armed_session\<lparr>distanceCondition := Some (example_trigger\<lparr>eventId := 7\<rparr>)\<rparr>))"
  using checkDistanceCondition_missing_event
    [of "in_game (armed_session\<lparr>distanceCondition := Some (example_trigger\<lparr>eventId := 7\<rparr>)\<rparr>)"
        "armed_session\<lparr>distanceCondition := Some (example_trigger\<lparr>eventId := 7\<rparr>)\<rparr>"
        "example_trigger\<lparr>eventId := 7\<rparr>" "Some open_window"]
  by (simp add: in_game_def armed_session_def example_game_def)

text \<open>
  Claim C9. Once no session is active (\<^verbatim>\<open>isActive\<close> false, or no session object),
  \<^verbatim>\<open>updateVariableChoice\<close> is a no-op for every window state: nothing is resolved again
  and nothing is written.
\<close>

theorem updateVariableChoice_inactive_noop:
  assumes "\<not> sessionActive g"
  shows "updateVariableChoice (cw, g) = Some (cw, g)"
  using assms
  by (auto simp add: updateVariableChoice_def activateChoiceWindow_def sessionActive_def
      split: option.splits)

theorem updateVariableChoice_inactive_noop_witness:
  "\<not> sessionActive (in_game (armed_session\<lparr>isActive := False\<rparr>))
   \<and> updateVariableChoice (Some closed_window, in_game (armed_session\<lparr>isActive := False\<rparr>)) =
       Some (Some closed_window, in_game (armed_session\<lparr>isActive := False\<rparr>))
   \<and> \<not> sessionActive example_game
   \<and> updateVariableChoice (Some closed_window, example_game) =
       Some (Some closed_window, example_game)"
  using updateVariableChoice_inactive_noop
    [of "in_game (armed_session\<lparr>isActive := False\<rparr>)" "Some closed_window"]
    updateVariableChoice_inactive_noop [of example_game "Some closed_window"]
  by (simp add: in_game_def sessionActive_def example_game_def)

text \<open>
  Claim C10. Without a session object, \<^verbatim>\<open>setupVariableChoice\<close> does not throw (the test of
  line 233 is \<^verbatim>\<open>?.\<close>): it writes -1 when the variable id is positive and installs the new
  session, active and without forced index, exactly as it does over an idle session.
\<close>

theorem setupVariableChoice_absent_slot:
  assumes "variableChoiceData g = None" and "\<not> isActive idle"
  shows "setupVariableChoice cs vid dc g =
           (if vid > 0 then setValue vid (- 1) g else g)
             \<lparr>variableChoiceData :=
                Some \<lparr>choices = cs, variableId = vid, isActive = True,
                      forcedIndex = None, distanceCondition = dc\<rparr>\<rparr>
         \<and> setupVariableChoice cs vid dc (g\<lparr>variableChoiceData := Some idle\<rparr>) =
             setupVariableChoice cs vid dc g"
  using assms by (simp add: setupVariableChoice_def sessionActive_def setValue_def)

theorem setupVariableChoice_absent_slot_witness:
  "variableChoiceData example_game = None
   \<and> \<not> isActive (example_session\<lparr>isActive := False\<rparr>)
   \<and> setupVariableChoice [''X'', ''Y''] 20 (Some example_trigger) example_game =
       example_game
         \<lparr>gameVariables := (\<lambda>_. 0)(20 := - 1), setValueLog := [(20, - 1)],
          variableChoiceData :=
            Some \<lparr>choices = [''X'', ''Y''], variableId = 20, isActive = True,
                  forcedIndex = None, distanceCondition = Some example_trigger\<rparr>\<rparr>
   \<and> setupVariableChoice [''X'', ''Y''] 20 (Some example_trigger)
         (example_game\<lparr>variableChoiceData := Some (example_session\<lparr>isActive := False\<rparr>)\<rparr>) =
       setupVariableChoice [''X'', ''Y''] 20 (Some example_trigger) example_game"
  using setupVariableChoice_absent_slot
    [of example_game "example_session\<lparr>isActive := False\<rparr>" "[''X'', ''Y'']" 20
        "Some example_trigger"]
  by (simp add: example_game_def setValue_def)

end
